theory Spec2Isabelle
  imports Complex_Main "HOL-Library.Multiset"
begin

section \<open>The engine core of IgeEngine.js\<close>

text \<open>
  A shallow embedding of \<^verbatim>\<open>src/engine/core/IgeEngine.js\<close>: the object register
  (\<^verbatim>\<open>$\<close>, \<^verbatim>\<open>register\<close>), the start-up gate (\<^verbatim>\<open>dependencyCheck\<close>, \<^verbatim>\<open>start\<close>,
  \<^verbatim>\<open>stop\<close>), the frame loop (\<^verbatim>\<open>tick\<close>, \<^verbatim>\<open>render\<close>), the statistics timer
  (\<^verbatim>\<open>_secondTick\<close>) and the console walk of the scene graph (\<^verbatim>\<open>sceneGraph\<close>).

  Conventions. A JavaScript property that may be \<^verbatim>\<open>undefined\<close> is an \<open>option\<close>.
  Counters and the wall-clock milliseconds of \<^verbatim>\<open>new Date().getTime()\<close> are \<open>int\<close>. The
  time stamps of the frame loop are doubles: a finite double is the real number it
  stands for, \<^verbatim>\<open>NaN\<close> is a value of its own, and the rounded subtraction of two doubles
  is a parameter of the frame loop. Every call the engine makes
  on a collaborator it does not own (the console, the drawing context, the frame
  scheduler, a node's own \<^verbatim>\<open>tick\<close>, the start callback) is an entry of an effect list, in
  the order the calls are made. An exception is a value that ends the call. The object
  literal \<^verbatim>\<open>_register\<close> is the finite map of its own properties together with the
  members it inherits from \<^verbatim>\<open>Object.prototype\<close>.
\<close>

subsection \<open>Values and objects\<close>

type_synonym ref = nat

datatype jsval =
    JUndefined
  | JNull
  | JBoolean bool
  | JNumber int
  | JString string
  | JObject ref
  | JFunction ref
  | JBuiltin_function string
  | JBuiltin_object string

fun typeof :: "jsval \<Rightarrow> string" where
  "typeof JUndefined = ''undefined''"
| "typeof JNull = ''object''"
| "typeof (JBoolean b) = ''boolean''"
| "typeof (JNumber n) = ''number''"
| "typeof (JString s) = ''string''"
| "typeof (JObject r) = ''object''"
| "typeof (JFunction r) = ''function''"
| "typeof (JBuiltin_function n) = ''function''"
| "typeof (JBuiltin_object n) = ''object''"

text \<open>What \<^verbatim>\<open>!x\<close> and \<^verbatim>\<open>if (x)\<close> test.\<close>

fun truthy :: "jsval \<Rightarrow> bool" where
  "truthy JUndefined = False"
| "truthy JNull = False"
| "truthy (JBoolean b) = b"
| "truthy (JNumber n) = (n \<noteq> 0)"
| "truthy (JString s) = (s \<noteq> [])"
| "truthy (JObject r) = True"
| "truthy (JFunction r) = True"
| "truthy (JBuiltin_function n) = True"
| "truthy (JBuiltin_object n) = True"

datatype exn = TypeError string | Thrown string

text \<open>
  A registrable object, seen through what \<^verbatim>\<open>register\<close> touches: the result of its
  \<^verbatim>\<open>id()\<close> and its \<^verbatim>\<open>_registered\<close> flag. Objects live in a store, so that two
  references to one object and two objects with equal fields stay apart.
\<close>

record obj =
  obj_id :: string
  obj_registered :: "bool option"

type_synonym store = "ref \<Rightarrow> obj"

text \<open>
  A node of the scene graph (a viewport, a scene, an entity): \<^verbatim>\<open>id()\<close>, \<^verbatim>\<open>_classId\<close>,
  \<^verbatim>\<open>_depth\<close>, how its own \<^verbatim>\<open>tick(ctx, scene)\<close> ends, \<^verbatim>\<open>_children\<close>, \<^verbatim>\<open>_scene\<close> and
  \<^verbatim>\<open>_shouldRender\<close>.
\<close>

datatype tick_end = Returns | Raises exn

datatype node = Node
  (node_id: string)
  (node_classId: string)
  (node_depth: int)
  (node_tick: tick_end)
  (node_children: "node list option")
  (node_scene: "node option")
  (node_shouldRender: bool)

datatype dependency = TexturesLoaded | CanvasReady | External nat

datatype 'a jsnum = NaN | Num 'a

datatype message = Msg string | Msg_timeout int

datatype effect =
    Log message "string option"
  | RequestAnimFrame
  | SetTimeout_start nat
  | Callback bool
  | Ctx_save
  | Ctx_translate int int
  | Ctx_restore
  | Node_tick node
  | ProcessBehaviours
  | Input_tick

subsection \<open>The engine context\<close>

record engine =
  ige_self :: ref
  ige_isServer :: bool
  ige_canvas :: "ref option"
  ige_state :: int
  ige_register :: "string \<rightharpoonup> ref"
  ige_register_inherited :: "string \<rightharpoonup> jsval"
  ige_dependencyQueue :: "dependency list"
  ige_dependencyCheckTimeout :: int
  ige_dependencyCheckStart :: "int option"
  ige_texturesLoading :: int
  ige_tickStart :: "real jsnum option"
  ige_lastTick :: "real jsnum option"
  ige_tickDelta :: "real jsnum"
  ige_clientNetDiff :: "real jsnum"
  ige_frameAlternator :: bool
  ige_drawCount :: int
  ige_dpt :: "int option"
  ige_dps :: "int jsnum"
  ige_frames :: int
  ige_fps :: int
  ige_viewportDepth :: bool
  ige_children :: "node list"
  ige_geometry_x2 :: int
  ige_geometry_y2 :: int

text \<open>
  The members every object literal inherits from \<^verbatim>\<open>Object.prototype\<close>: its functions,
  and under \<^verbatim>\<open>__proto__\<close> the prototype object itself.
\<close>

definition Object_prototype :: "string \<rightharpoonup> jsval" where
  "Object_prototype = map_of
     [(''constructor'', JBuiltin_function ''Object''),
      (''toString'', JBuiltin_function ''Object.prototype.toString''),
      (''toLocaleString'', JBuiltin_function ''Object.prototype.toLocaleString''),
      (''valueOf'', JBuiltin_function ''Object.prototype.valueOf''),
      (''hasOwnProperty'', JBuiltin_function ''Object.prototype.hasOwnProperty''),
      (''isPrototypeOf'', JBuiltin_function ''Object.prototype.isPrototypeOf''),
      (''propertyIsEnumerable'', JBuiltin_function ''Object.prototype.propertyIsEnumerable''),
      (''__defineGetter__'', JBuiltin_function ''Object.prototype.__defineGetter__''),
      (''__defineSetter__'', JBuiltin_function ''Object.prototype.__defineSetter__''),
      (''__lookupGetter__'', JBuiltin_function ''Object.prototype.__lookupGetter__''),
      (''__lookupSetter__'', JBuiltin_function ''Object.prototype.__lookupSetter__''),
      (''__proto__'', JBuiltin_object ''Object.prototype'')]"

text \<open>
  \<^verbatim>\<open>init\<close>: the defaults the constructor assigns. \<^verbatim>\<open>lastTick\<close>, \<^verbatim>\<open>tickStart\<close>, \<^verbatim>\<open>_dpt\<close>,
  \<^verbatim>\<open>_dependencyCheckStart\<close> and \<^verbatim>\<open>_canvas\<close> are not assigned and stay undefined.
  \<^verbatim>\<open>_children\<close> and \<^verbatim>\<open>geometry\<close> come from the entity constructor: an empty array and
  the origin. \<^verbatim>\<open>_register\<close> is the object literal \<^verbatim>\<open>{ 'ige': this }\<close>, which inherits from
  \<^verbatim>\<open>Object.prototype\<close>.
\<close>

definition init :: "ref \<Rightarrow> bool \<Rightarrow> engine" where
  "init self isServer =
     \<lparr> ige_self = self,
       ige_isServer = isServer,
       ige_canvas = None,
       ige_state = 0,
       ige_register = [''ige'' \<mapsto> self],
       ige_register_inherited = Object_prototype,
       ige_dependencyQueue = [TexturesLoaded, CanvasReady],
       ige_dependencyCheckTimeout = 30000,
       ige_dependencyCheckStart = None,
       ige_texturesLoading = 0,
       ige_tickStart = None,
       ige_lastTick = None,
       ige_tickDelta = Num 0,
       ige_clientNetDiff = Num 0,
       ige_frameAlternator = False,
       ige_drawCount = 0,
       ige_dpt = None,
       ige_dps = Num 0,
       ige_frames = 0,
       ige_fps = 0,
       ige_viewportDepth = False,
       ige_children = [],
       ige_geometry_x2 = 0,
       ige_geometry_y2 = 0 \<rparr>"

subsection \<open>The object register\<close>

text \<open>
  The read \<^verbatim>\<open>this._register[k]\<close>: the own property \<open>k\<close> when there is one, else the
  member the object literal inherits under \<open>k\<close>, else \<^verbatim>\<open>undefined\<close>.
\<close>

definition register_get :: "engine \<Rightarrow> string \<Rightarrow> jsval" where
  "register_get e k =
     (case ige_register e k of
        Some r \<Rightarrow> JObject r
      | None \<Rightarrow> (case ige_register_inherited e k of Some v \<Rightarrow> v | None \<Rightarrow> JUndefined))"

text \<open>
  \<^verbatim>\<open>$(item)\<close>: a string is read from \<^verbatim>\<open>_register\<close>, anything whose \<^verbatim>\<open>typeof\<close> is
  \<^verbatim>\<open>'object'\<close> is returned as it is, everything else gives the engine.
\<close>

definition lookup :: "jsval \<Rightarrow> engine \<Rightarrow> jsval" where
  "lookup item e =
     (case item of
        JString s \<Rightarrow> register_get e s
      | JObject r \<Rightarrow> item
      | JNull \<Rightarrow> item
      | JBuiltin_object n \<Rightarrow> item
      | _ \<Rightarrow> JObject (ige_self e))"

datatype register_result =
    Ret_this ref
  | Ret_false
  | Ret_register "string \<rightharpoonup> ref"
  | Ret_throw exn

record register_out =
  out_engine :: engine
  out_store :: store
  out_ret :: register_result
  out_log :: "effect list"

definition duplicate_message :: "string \<Rightarrow> string" where
  "duplicate_message k =
     ''Cannot add object id \"'' @ k @
     ''\" to scenegraph because there is already another object in the graph with the same ID!''"

text \<open>
  \<^verbatim>\<open>register(obj)\<close>. With \<^verbatim>\<open>undefined\<close> it returns \<^verbatim>\<open>this._register\<close>. With an
  object it tests \<^verbatim>\<open>!this._register[obj.id()]\<close>: when the read is falsy the reference is
  stored as an own property and \<^verbatim>\<open>obj._registered = true\<close>; otherwise
  \<^verbatim>\<open>obj._registered = false\<close>, an error is logged and \<^verbatim>\<open>false\<close> returned. The read sees
  inherited members too, so an id that names one is refused. A value with no \<^verbatim>\<open>id\<close>
  method raises at \<^verbatim>\<open>obj.id()\<close>.
\<close>

definition register :: "jsval \<Rightarrow> engine \<Rightarrow> store \<Rightarrow> register_out" where
  "register ob e h =
     (case ob of
        JUndefined \<Rightarrow>
          \<lparr> out_engine = e, out_store = h, out_ret = Ret_register (ige_register e), out_log = [] \<rparr>
      | JObject r \<Rightarrow>
          (if \<not> truthy (register_get e (obj_id (h r))) then
             \<lparr> out_engine = e\<lparr> ige_register := (ige_register e)(obj_id (h r) \<mapsto> r) \<rparr>,
               out_store = h(r := (h r)\<lparr> obj_registered := Some True \<rparr>),
               out_ret = Ret_this (ige_self e),
               out_log = [] \<rparr>
           else
             \<lparr> out_engine = e,
               out_store = h(r := (h r)\<lparr> obj_registered := Some False \<rparr>),
               out_ret = Ret_false,
               out_log = [Log (Msg (duplicate_message (obj_id (h r)))) (Some ''error'')] \<rparr>)
      | _ \<Rightarrow>
          \<lparr> out_engine = e, out_store = h,
            out_ret = Ret_throw (TypeError ''obj.id is not a function''), out_log = [] \<rparr>)"

text \<open>A store in which every object answers \<^verbatim>\<open>id()\<close> with the same string.\<close>

definition same_id_store :: "string \<Rightarrow> store" where
  "same_id_store k r = \<lparr> obj_id = k, obj_registered = None \<rparr>"

subsection \<open>The start-up gate\<close>


text \<open>
  The entries of \<^verbatim>\<open>_dependencyQueue\<close>. The engine's own two are \<^verbatim>\<open>texturesLoaded\<close> and
  \<^verbatim>\<open>canvasReady\<close>; a check pushed by a collaborator is \<open>External i\<close>, and \<open>ext i\<close> says
  what it returns when it is asked now.
\<close>

definition texturesLoaded :: "engine \<Rightarrow> bool" where
  "texturesLoaded e = (ige_texturesLoading e = 0)"

definition canvasReady :: "engine \<Rightarrow> bool" where
  "canvasReady e = (case ige_canvas e of None \<Rightarrow> ige_isServer e | Some c \<Rightarrow> True)"

fun run_dependency :: "(nat \<Rightarrow> bool) \<Rightarrow> engine \<Rightarrow> dependency \<Rightarrow> bool" where
  "run_dependency ext e TexturesLoaded = texturesLoaded e"
| "run_dependency ext e CanvasReady = canvasReady e"
| "run_dependency ext e (External i) = ext i"

text \<open>
  \<^verbatim>\<open>dependencyCheck\<close>: \<^verbatim>\<open>while (arrCount--)\<close> asks the entries from the last to the
  first and returns \<^verbatim>\<open>false\<close> at the first that fails.
\<close>

fun dependencyCheck_loop :: "(nat \<Rightarrow> bool) \<Rightarrow> engine \<Rightarrow> dependency list \<Rightarrow> bool" where
  "dependencyCheck_loop ext e [] = True"
| "dependencyCheck_loop ext e (d # ds) =
     (if run_dependency ext e d then dependencyCheck_loop ext e ds else False)"

definition dependencyCheck :: "(nat \<Rightarrow> bool) \<Rightarrow> engine \<Rightarrow> bool" where
  "dependencyCheck ext e = dependencyCheck_loop ext e (rev (ige_dependencyQueue e))"

definition fire :: "jsval \<Rightarrow> bool \<Rightarrow> effect list" where
  "fire callback b = (if typeof callback = ''function'' then [Callback b] else [])"

text \<open>
  One call of \<^verbatim>\<open>start(callback)\<close> at wall-clock time \<open>curTime\<close>
  (\<^verbatim>\<open>new Date().getTime()\<close>). The retry \<^verbatim>\<open>setTimeout(function () { ige.start(callback); }, 200)\<close>
  is the effect \<open>SetTimeout_start 200\<close>: the next call of \<open>start\<close> is made by the timer.
\<close>

definition checkStart :: "int \<Rightarrow> engine \<Rightarrow> int" where
  "checkStart curTime e =
     (case ige_dependencyCheckStart e of
        None \<Rightarrow> curTime
      | Some t \<Rightarrow> if t = 0 then curTime else t)"

definition start :: "(nat \<Rightarrow> bool) \<Rightarrow> int \<Rightarrow> jsval \<Rightarrow> engine \<Rightarrow> engine \<times> effect list" where
  "start ext curTime callback e =
     (if ige_state e = 0 then
        if dependencyCheck ext e then
          (e\<lparr> ige_state := 1 \<rparr>,
           [Log (Msg ''Starting engine...'') None, RequestAnimFrame,
            Log (Msg ''Engine started'') None] @ fire callback True)
        else
          if curTime - checkStart curTime e > ige_dependencyCheckTimeout e then
            (e\<lparr> ige_dependencyCheckStart := Some (checkStart curTime e) \<rparr>,
             [Log (Msg_timeout (ige_dependencyCheckTimeout e)) (Some ''error'')] @ fire callback False)
          else
            (e\<lparr> ige_dependencyCheckStart := Some (checkStart curTime e) \<rparr>, [SetTimeout_start 200])
      else (e, []))"

definition stop :: "engine \<Rightarrow> engine \<times> bool \<times> effect list" where
  "stop e =
     (if ige_state e = 0 then (e, False, [])
      else (e\<lparr> ige_state := 0 \<rparr>, True, [Log (Msg ''Stopping engine...'') None]))"

subsection \<open>The statistics timer\<close>

fun to_number :: "int option \<Rightarrow> int jsnum" where
  "to_number None = NaN"
| "to_number (Some n) = Num n"

fun js_times :: "int jsnum \<Rightarrow> int jsnum \<Rightarrow> int jsnum" where
  "js_times (Num a) (Num b) = Num (a * b)"
| "js_times a b = NaN"

definition secondTick :: "engine \<Rightarrow> engine" where
  "secondTick e =
     e\<lparr> ige_fps := ige_frames e,
        ige_dps := js_times (to_number (ige_dpt e)) (Num (ige_frames e)),
        ige_frames := 0,
        ige_drawCount := 0 \<rparr>"

subsection \<open>Rendering\<close>

text \<open>
  Modelled from the spec: \<^verbatim>\<open>depthSortChildren\<close> is a method of the entity class, which is
  not among the sources. The spec has \<^verbatim>\<open>render\<close> reorder the root nodes by each node's
  depth attribute, a stable tie-break being acceptable, so that lower depth renders first.
  \<^verbatim>\<open>render\<close> walks the array from its last element to its first, so the array is put in
  descending depth, nodes of equal depth keeping their order.
\<close>

definition depthSortChildren :: "node list \<Rightarrow> node list" where
  "depthSortChildren cs = sort_key (\<lambda>n. - node_depth n) cs"

text \<open>
  The loop of \<^verbatim>\<open>render\<close> over the nodes in the order it visits them: \<^verbatim>\<open>ctx.save()\<close>, the
  node's \<^verbatim>\<open>tick(ctx, scene)\<close>, \<^verbatim>\<open>ctx.restore()\<close>. There is no \<^verbatim>\<open>try\<close> in the source: a
  \<^verbatim>\<open>tick\<close> that raises ends the loop and the call.
\<close>

fun render_loop :: "node list \<Rightarrow> effect list \<times> exn option" where
  "render_loop [] = ([], None)"
| "render_loop (n # ns) =
     (case node_tick n of
        Raises x \<Rightarrow> ([Ctx_save, Node_tick n], Some x)
      | Returns \<Rightarrow>
          (case render_loop ns of (fx, x) \<Rightarrow> ([Ctx_save, Node_tick n, Ctx_restore] @ fx, x)))"

definition sortedChildren :: "engine \<Rightarrow> node list" where
  "sortedChildren e =
     (if ige_viewportDepth e then depthSortChildren (ige_children e) else ige_children e)"

definition render :: "engine \<Rightarrow> engine \<times> effect list \<times> exn option" where
  "render e =
     (case render_loop (rev (sortedChildren e)) of
        (fx, None) \<Rightarrow>
          (e\<lparr> ige_children := sortedChildren e \<rparr>,
           [Ctx_save, Ctx_translate (ige_geometry_x2 e) (ige_geometry_y2 e)] @ fx @ [Ctx_restore],
           None)
      | (fx, Some x) \<Rightarrow>
          (e\<lparr> ige_children := sortedChildren e \<rparr>,
           [Ctx_save, Ctx_translate (ige_geometry_x2 e) (ige_geometry_y2 e)] @ fx,
           Some x))"

text \<open>The nodes whose \<^verbatim>\<open>tick\<close> was called, in the order of the calls.\<close>

fun ticked :: "effect list \<Rightarrow> node list" where
  "ticked [] = []"
| "ticked (Node_tick n # fx) = n # ticked fx"
| "ticked (f # fx) = ticked fx"

subsection \<open>The frame loop\<close>

text \<open>
  \<^verbatim>\<open>tick(timeStamp, ctx)\<close>. The behaviours of the engine and the input component are
  collaborators: their calls are effects. \<^verbatim>\<open>_drawCount\<close> is counted up by the drawing
  calls of the nodes, outside this file.
\<close>

fun to_double :: "real jsnum option \<Rightarrow> real jsnum" where
  "to_double None = NaN"
| "to_double (Some x) = x"

text \<open>
  \<^verbatim>\<open>!x\<close> on a property that holds a double or is undefined: undefined, \<open>0\<close> and \<^verbatim>\<open>NaN\<close>
  are falsy.
\<close>

fun falsy_number :: "real jsnum option \<Rightarrow> bool" where
  "falsy_number None = True"
| "falsy_number (Some NaN) = True"
| "falsy_number (Some (Num x)) = (x = 0)"

text \<open>
  The \<^verbatim>\<open>-\<close> of JavaScript. \<open>sub a b\<close> is the difference of the doubles \<open>a\<close> and \<open>b\<close> as
  the engine rounds it; \<^verbatim>\<open>NaN\<close> on either side gives \<^verbatim>\<open>NaN\<close>. Overflow to an infinity is
  not modelled.
\<close>

fun js_minus :: "(real \<Rightarrow> real \<Rightarrow> real) \<Rightarrow> real jsnum \<Rightarrow> real jsnum \<Rightarrow> real jsnum" where
  "js_minus sub (Num a) (Num b) = Num (sub a b)"
| "js_minus sub a b = NaN"

text \<open>
  The timing part of \<^verbatim>\<open>tick\<close>. \<open>timeStamp\<close> is \<open>None\<close> when \<^verbatim>\<open>tick\<close> is called with no
  argument, as the \<^verbatim>\<open>setTimeout\<close> of \<^verbatim>\<open>setFps\<close> calls it: \<^verbatim>\<open>tickStart\<close> is then \<^verbatim>\<open>NaN\<close>.
\<close>

definition tickTiming ::
  "(real \<Rightarrow> real \<Rightarrow> real) \<Rightarrow> real jsnum option \<Rightarrow> engine \<Rightarrow> engine" where
  "tickTiming sub timeStamp e =
     (if falsy_number (ige_lastTick e) then
        e\<lparr> ige_frameAlternator := \<not> ige_frameAlternator e,
           ige_tickStart := Some (js_minus sub (to_double timeStamp) (ige_clientNetDiff e)),
           ige_lastTick := Some (Num 0),
           ige_tickDelta := Num 0 \<rparr>
      else
        e\<lparr> ige_frameAlternator := \<not> ige_frameAlternator e,
           ige_tickStart := Some (js_minus sub (to_double timeStamp) (ige_clientNetDiff e)),
           ige_tickDelta :=
             js_minus sub (js_minus sub (to_double timeStamp) (ige_clientNetDiff e))
               (to_double (ige_lastTick e)) \<rparr>)"

definition tick ::
  "(real \<Rightarrow> real \<Rightarrow> real) \<Rightarrow> real jsnum option \<Rightarrow> engine
     \<Rightarrow> engine \<times> effect list \<times> exn option" where
  "tick sub timeStamp e =
     (if ige_state e = 0 then (e, [], None)
      else
        (case render (tickTiming sub timeStamp e) of
           (e', fx, Some x) \<Rightarrow> (e', [RequestAnimFrame, ProcessBehaviours] @ fx, Some x)
         | (e', fx, None) \<Rightarrow>
             (e'\<lparr> ige_lastTick := ige_tickStart e',
                  ige_frames := ige_frames e' + 1,
                  ige_dpt := Some (ige_drawCount e'),
                  ige_drawCount := 0 \<rparr>,
              [RequestAnimFrame, ProcessBehaviours] @ fx @ [Input_tick],
              None)))"

subsection \<open>The console walk of the scene graph\<close>

definition depthSpace :: "nat \<Rightarrow> string" where
  "depthSpace d = concat (replicate d ''    '')"

definition label :: "string \<Rightarrow> string \<Rightarrow> string" where
  "label i c = i @ '' ('' @ c @ '')''"

text \<open>
  \<^verbatim>\<open>sceneGraph(obj, currentDepth)\<close> for an object that is not the engine: its line, then
  its children from the last to the first, one level deeper; \<^verbatim>\<open>if (arr)\<close> skips an absent
  \<^verbatim>\<open>_children\<close>.
\<close>

fun sceneGraph_node :: "node \<Rightarrow> nat \<Rightarrow> string list" where
  "sceneGraph_node (Node i c dp tk ch sc sr) d =
     (depthSpace d @ label i c) #
     (case ch of
        None \<Rightarrow> []
      | Some cs \<Rightarrow> concat (map (\<lambda>n. sceneGraph_node n (Suc d)) (rev cs)))"

text \<open>
  The loop over the viewports of the engine, in the order it visits them. It reads
  \<^verbatim>\<open>arr[arrCount]._scene._shouldRender\<close> with no test of \<^verbatim>\<open>_scene\<close>: a viewport with no
  scene raises a \<^verbatim>\<open>TypeError\<close> there.
\<close>

fun sceneGraph_viewports :: "node list \<Rightarrow> nat \<Rightarrow> string list \<times> exn option" where
  "sceneGraph_viewports [] d = ([], None)"
| "sceneGraph_viewports (v # vs) d =
     (case node_scene v of
        None \<Rightarrow> ([], Some (TypeError ''Cannot read property _shouldRender of undefined''))
      | Some s \<Rightarrow>
          (case sceneGraph_viewports vs d of
             (out, x) \<Rightarrow>
               ((if node_shouldRender s
                 then (depthSpace d @ ''    '' @ label (node_id v) (node_classId v)) #
                        sceneGraph_node s (d + 2)
                 else []) @ out, x)))"

text \<open>\<^verbatim>\<open>sceneGraph()\<close> with no object: the engine itself, whose id is \<^verbatim>\<open>'ige'\<close>.\<close>

definition sceneGraph :: "engine \<Rightarrow> nat \<Rightarrow> string list \<times> exn option" where
  "sceneGraph e d =
     (case sceneGraph_viewports (rev (ige_children e)) d of
        (out, x) \<Rightarrow> ((depthSpace d @ label ''ige'' ''IgeEngine'') # out, x))"

subsection \<open>Concrete inputs\<close>

text \<open>No collaborator's check passes.\<close>

definition no_external :: "nat \<Rightarrow> bool" where
  "no_external i = False"

text \<open>A viewport with an empty child array.\<close>

definition viewport :: "string \<Rightarrow> int \<Rightarrow> tick_end \<Rightarrow> node option \<Rightarrow> node" where
  "viewport i dp tk sc = Node i ''IgeViewport'' dp tk (Some []) sc True"

text \<open>The three calls \<^verbatim>\<open>render\<close> makes for a node whose \<^verbatim>\<open>tick\<close> returns.\<close>

definition scoped :: "node \<Rightarrow> effect list" where
  "scoped n = [Ctx_save, Node_tick n, Ctx_restore]"

text \<open>
  The subtraction of doubles where it does not round, as on integers below \<open>2 ^ 53\<close>.
\<close>

definition exact_minus :: "real \<Rightarrow> real \<Rightarrow> real" where
  "exact_minus a b = a - b"

text \<open>Three viewports of depths 3, 1 and 2, in this order in the array.\<close>

definition depths312 :: "node list" where
  "depths312 = [viewport ''a'' 3 Returns None, viewport ''b'' 1 Returns None,
                viewport ''c'' 2 Returns None]"

section \<open>The object register: properties\<close>

text \<open>The three branches of \<^verbatim>\<open>$\<close>.\<close>

lemma lookup_cases:
  "lookup (JString s) e = register_get e s
   \<and> lookup (JObject r) e = JObject r
   \<and> lookup JUndefined e = JObject (ige_self e)"
  by (simp add: lookup_def)

text \<open>
  For a string that names no inherited member, \<^verbatim>\<open>$\<close> returns the object registered
  under it, or undefined when there is none.
\<close>

lemma lookup_own_names:
  "ige_register_inherited e s = None \<Longrightarrow>
     lookup (JString s) e = (case ige_register e s of None \<Rightarrow> JUndefined | Some r \<Rightarrow> JObject r)"
  by (simp add: lookup_def register_get_def split: option.splits)

text \<open>
  C8. \<^verbatim>\<open>$\<close> given a string is to return the object registered under it or undefined.
  On a new engine nothing is registered under \<^verbatim>\<open>'toString'\<close>, and \<^verbatim>\<open>$('toString')\<close>
  returns the function \<^verbatim>\<open>Object.prototype.toString\<close>, which the register inherits.
\<close>

theorem lookup_inherited_member:
  "ige_register (init 0 True) ''toString'' = None
   \<and> lookup (JString ''toString'') (init 0 True)
       = JBuiltin_function ''Object.prototype.toString''"
  by (simp add: lookup_def register_get_def init_def Object_prototype_def)

text \<open>
  C10. \<^verbatim>\<open>register\<close> called with undefined leaves the engine and every object as they
  are, logs nothing and returns the register itself, which is neither the engine handle
  of a success nor the \<^verbatim>\<open>false\<close> of a failure.
\<close>

theorem register_undefined:
  "register JUndefined e h =
     \<lparr> out_engine = e, out_store = h, out_ret = Ret_register (ige_register e), out_log = [] \<rparr>
   \<and> Ret_register (ige_register e) \<noteq> Ret_this (ige_self e)
   \<and> Ret_register (ige_register e) \<noteq> Ret_false"
  by (simp add: register_def)

theorem register_undefined_witness:
  "out_ret (register JUndefined (init 0 True) (same_id_store ''a'')) = Ret_register [''ige'' \<mapsto> 0]
   \<and> out_engine (register JUndefined (init 0 True) (same_id_store ''a'')) = init 0 True
   \<and> out_log (register JUndefined (init 0 True) (same_id_store ''a'')) = []"
  using register_undefined [of "init 0 True" "same_id_store ''a''"]
  by (simp add: init_def)

text \<open>
  C1, as stated, fails: the register of a new engine already holds \<^verbatim>\<open>'ige'\<close>, so the
  first of two objects with that id is refused as well, and the id stays with the engine.
\<close>

theorem register_duplicate_counterexample:
  "out_ret (register (JObject 1) (init 0 True) (same_id_store ''ige'')) = Ret_false
   \<and> ige_register (out_engine (register (JObject 1) (init 0 True) (same_id_store ''ige''))) ''ige''
       = Some 0"
  by (simp add: register_def register_get_def init_def same_id_store_def)

text \<open>
  An id that names an inherited member is refused too, on the first registration, with
  nothing registered under it.
\<close>

lemma register_inherited_name:
  "ige_register (init 0 True) ''toString'' = None
   \<and> out_ret (register (JObject 3) (init 0 True) (same_id_store ''toString'')) = Ret_false"
  by (simp add: register_def register_get_def init_def same_id_store_def Object_prototype_def)

text \<open>
  C1, amended. When the register holds nothing under the id \<open>k\<close> of the objects \<open>a\<close> and
  \<open>b\<close>, neither as an own entry nor as an inherited member: registering \<open>a\<close> returns the
  engine; registering \<open>b\<close> next returns \<^verbatim>\<open>false\<close>, leaves the engine as the first call
  left it, with \<open>k\<close> mapped to \<open>a\<close> and every other id as before, marks \<open>b\<close> as not
  registered and logs one error.
\<close>

theorem register_uniqueness:
  assumes "obj_id (h a) = k" and "obj_id (h b) = k"
    and "ige_register e k = None" and "ige_register_inherited e k = None"
  defines "r1 \<equiv> register (JObject a) e h"
  defines "r2 \<equiv> register (JObject b) (out_engine r1) (out_store r1)"
  shows "out_ret r1 = Ret_this (ige_self e)
    \<and> out_ret r2 = Ret_false
    \<and> ige_register (out_engine r2) = (ige_register e)(k \<mapsto> a)
    \<and> out_engine r2 = out_engine r1
    \<and> obj_registered (out_store r2 b) = Some False
    \<and> out_log r2 = [Log (Msg (duplicate_message k)) (Some ''error'')]"
  using assms(1-4) unfolding r1_def r2_def by (auto simp add: register_def register_get_def)

theorem register_uniqueness_witness:
  "out_ret (register (JObject 3) (init 0 True) (same_id_store ''hero'')) = Ret_this 0
   \<and> out_ret (register (JObject 4)
        (out_engine (register (JObject 3) (init 0 True) (same_id_store ''hero'')))
        (out_store (register (JObject 3) (init 0 True) (same_id_store ''hero'')))) = Ret_false
   \<and> ige_register (out_engine (register (JObject 4)
        (out_engine (register (JObject 3) (init 0 True) (same_id_store ''hero'')))
        (out_store (register (JObject 3) (init 0 True) (same_id_store ''hero''))))) ''hero''
       = Some 3
   \<and> obj_registered (out_store (register (JObject 4)
        (out_engine (register (JObject 3) (init 0 True) (same_id_store ''hero'')))
        (out_store (register (JObject 3) (init 0 True) (same_id_store ''hero'')))) 4)
       = Some False"
proof -
  have a: "obj_id (same_id_store ''hero'' 3) = ''hero''" by (simp add: same_id_store_def)
  have b: "obj_id (same_id_store ''hero'' 4) = ''hero''" by (simp add: same_id_store_def)
  have c: "ige_register (init 0 True) ''hero'' = None" by (simp add: init_def)
  have d: "ige_register_inherited (init 0 True) ''hero'' = None"
    by (simp add: init_def Object_prototype_def)
  have s: "ige_self (init 0 True) = 0" by (simp add: init_def)
  show ?thesis using register_uniqueness [OF a b c d] by (elim conjE) (simp add: s)
qed

section \<open>The start-up gate: properties\<close>

lemma dependencyCheck_loop_all:
  "dependencyCheck_loop ext e ds = list_all (run_dependency ext e) ds"
  by (induction ds) simp_all

lemma dependencyCheck_all:
  "dependencyCheck ext e = (\<forall>d \<in> set (ige_dependencyQueue e). run_dependency ext e d)"
  by (simp add: dependencyCheck_def dependencyCheck_loop_all list_all_iff)

text \<open>
  C5. When the engine is stopped and every check of the queue passes, one call of
  \<^verbatim>\<open>start\<close> with a callback sets the state to running, requests a frame and calls the
  callback with \<^verbatim>\<open>true\<close> once; no retry is scheduled.
\<close>

theorem start_success:
  assumes "ige_state e = 0"
    and "\<forall>d \<in> set (ige_dependencyQueue e). run_dependency ext e d"
    and "typeof callback = ''function''"
  shows "start ext curTime callback e =
           (e\<lparr> ige_state := 1 \<rparr>,
            [Log (Msg ''Starting engine...'') None, RequestAnimFrame,
             Log (Msg ''Engine started'') None, Callback True])
         \<and> count_list (snd (start ext curTime callback e)) (Callback True) = 1
         \<and> count_list (snd (start ext curTime callback e)) (SetTimeout_start 200) = 0"
  using assms by (simp add: start_def dependencyCheck_all fire_def)

theorem start_success_witness:
  "ige_state (fst (start no_external 5 (JFunction 1) (init 0 True))) = 1
   \<and> snd (start no_external 5 (JFunction 1) (init 0 True)) =
       [Log (Msg ''Starting engine...'') None, RequestAnimFrame,
        Log (Msg ''Engine started'') None, Callback True]"
proof -
  have a: "ige_state (init 0 True) = 0" by (simp add: init_def)
  have b: "\<forall>d \<in> set (ige_dependencyQueue (init 0 True)).
             run_dependency no_external (init 0 True) d"
    by (simp add: init_def texturesLoaded_def canvasReady_def)
  have c: "typeof (JFunction 1) = ''function''" by simp
  show ?thesis using start_success [OF a b c, of 5] by simp
qed




section \<open>The statistics timer: properties\<close>

text \<open>
  C7. Every run of \<^verbatim>\<open>_secondTick\<close>, whatever the state of the engine, copies
  \<^verbatim>\<open>_frames\<close> into \<^verbatim>\<open>_fps\<close>, sets \<^verbatim>\<open>_dps\<close> to the product of \<^verbatim>\<open>_dpt\<close> and the new
  \<^verbatim>\<open>_fps\<close> (\<^verbatim>\<open>NaN\<close> while \<^verbatim>\<open>_dpt\<close> is still undefined), and sets \<^verbatim>\<open>_frames\<close> and
  \<^verbatim>\<open>_drawCount\<close> to zero; the state is not touched.
\<close>

theorem secondTick_stats:
  "ige_fps (secondTick e) = ige_frames e
   \<and> ige_dps (secondTick e)
       = (case ige_dpt e of None \<Rightarrow> NaN | Some d \<Rightarrow> Num (d * ige_fps (secondTick e)))
   \<and> ige_dps (secondTick e)
       = (case ige_dpt e of None \<Rightarrow> NaN | Some d \<Rightarrow> Num (d * ige_frames e))
   \<and> ige_frames (secondTick e) = 0
   \<and> ige_drawCount (secondTick e) = 0
   \<and> ige_state (secondTick e) = ige_state e"
  by (simp add: secondTick_def split: option.splits)

theorem secondTick_stats_witness:
  "ige_fps (secondTick ((init 0 True)\<lparr> ige_state := 1, ige_frames := 60, ige_dpt := Some 7, ige_drawCount := 3 \<rparr>)) = 60
   \<and> ige_dps (secondTick ((init 0 True)\<lparr> ige_state := 1, ige_frames := 60, ige_dpt := Some 7, ige_drawCount := 3 \<rparr>)) = Num 420
   \<and> ige_dps (secondTick ((init 0 True)\<lparr> ige_state := 0, ige_frames := 30, ige_dpt := Some 5, ige_drawCount := 3 \<rparr>)) = Num 150
   \<and> ige_dps (secondTick ((init 0 True)\<lparr> ige_state := 0, ige_frames := 30, ige_drawCount := 3 \<rparr>)) = NaN
   \<and> ige_frames (secondTick ((init 0 True)\<lparr> ige_state := 0, ige_frames := 30, ige_dpt := Some 5, ige_drawCount := 3 \<rparr>)) = 0
   \<and> ige_drawCount (secondTick ((init 0 True)\<lparr> ige_state := 0, ige_frames := 30, ige_dpt := Some 5, ige_drawCount := 3 \<rparr>)) = 0"
  using secondTick_stats [of "(init 0 True)\<lparr> ige_state := 1, ige_frames := 60, ige_dpt := Some 7, ige_drawCount := 3 \<rparr>"]
    secondTick_stats [of "(init 0 True)\<lparr> ige_state := 0, ige_frames := 30, ige_dpt := Some 5, ige_drawCount := 3 \<rparr>"]
    secondTick_stats [of "(init 0 True)\<lparr> ige_state := 0, ige_frames := 30, ige_drawCount := 3 \<rparr>"]
  by (simp add: init_def)

section \<open>Rendering: properties\<close>

lemma render_loop_returns:
  "\<forall>n \<in> set ns. node_tick n = Returns \<Longrightarrow> render_loop ns = (concat (map scoped ns), None)"
  by (induction ns) (simp_all add: scoped_def)

lemma render_loop_raises:
  "\<exists>n \<in> set ns. node_tick n \<noteq> Returns \<Longrightarrow>
     snd (render_loop ns) \<noteq> None
     \<and> count_list (fst (render_loop ns)) Ctx_save = Suc (count_list (fst (render_loop ns)) Ctx_restore)
     \<and> length (ticked (fst (render_loop ns))) \<le> length ns"
proof (induction ns)
  case Nil
  then show ?case by simp
next
  case (Cons n ns)
  show ?case
  proof (cases "node_tick n")
    case Returns
    with Cons.prems have "\<exists>m \<in> set ns. node_tick m \<noteq> Returns" by auto
    from Cons.IH [OF this] Returns show ?thesis
      by (cases "render_loop ns") auto
  next
    case (Raises x)
    then show ?thesis by simp
  qed
qed

lemma set_sortedChildren: "set (sortedChildren e) = set (ige_children e)"
  by (simp add: sortedChildren_def depthSortChildren_def)

lemma length_sortedChildren: "length (sortedChildren e) = length (ige_children e)"
  by (simp add: sortedChildren_def depthSortChildren_def)

lemma count_scoped_save: "count_list (concat (map scoped ns)) Ctx_save = length ns"
  by (induction ns) (simp_all add: scoped_def)

lemma count_scoped_restore: "count_list (concat (map scoped ns)) Ctx_restore = length ns"
  by (induction ns) (simp_all add: scoped_def)

lemma ticked_append: "ticked (fx @ gx) = ticked fx @ ticked gx"
  by (induction fx rule: ticked.induct) simp_all

lemma ticked_scoped: "ticked (concat (map scoped ns)) = ns"
  by (induction ns) (simp_all add: scoped_def)

lemma render_returns:
  assumes "\<forall>n \<in> set (ige_children e). node_tick n = Returns"
  shows "render e =
           (e\<lparr> ige_children := sortedChildren e \<rparr>,
            [Ctx_save, Ctx_translate (ige_geometry_x2 e) (ige_geometry_y2 e)]
              @ concat (map scoped (rev (sortedChildren e))) @ [Ctx_restore],
            None)"
proof -
  have "\<forall>n \<in> set (rev (sortedChildren e)). node_tick n = Returns"
    using assms by (simp add: set_sortedChildren)
  from render_loop_returns [OF this] show ?thesis
    by (simp add: render_def)
qed

lemma ticked_render:
  assumes "\<forall>n \<in> set (ige_children e). node_tick n = Returns"
  shows "ticked (fst (snd (render e))) = rev (sortedChildren e)"
  by (simp add: render_returns [OF assms] ticked_append ticked_scoped)

lemma fst_render: "fst (render e) = e\<lparr> ige_children := sortedChildren e \<rparr>"
  by (simp add: render_def split: prod.splits option.splits)

lemma render_loop_raise_trace:
  "\<exists>n \<in> set ns. node_tick n \<noteq> Returns \<Longrightarrow>
     \<exists>pre n x post. ns = pre @ n # post
       \<and> (\<forall>m \<in> set pre. node_tick m = Returns)
       \<and> node_tick n = Raises x
       \<and> render_loop ns = (concat (map scoped pre) @ [Ctx_save, Node_tick n], Some x)"
proof (induction ns)
  case Nil
  then show ?case by simp
next
  case (Cons m ns)
  show ?case
  proof (cases "node_tick m")
    case (Raises x)
    then have "m # ns = [] @ m # ns \<and> (\<forall>k \<in> set []. node_tick k = Returns)
        \<and> node_tick m = Raises x
        \<and> render_loop (m # ns) = (concat (map scoped []) @ [Ctx_save, Node_tick m], Some x)"
      by simp
    then show ?thesis by blast
  next
    case Returns
    with Cons.prems have "\<exists>n \<in> set ns. node_tick n \<noteq> Returns" by auto
    from Cons.IH [OF this] obtain pre n x post where
      s: "ns = pre @ n # post" and p: "\<forall>k \<in> set pre. node_tick k = Returns"
      and r: "node_tick n = Raises x"
      and l: "render_loop ns = (concat (map scoped pre) @ [Ctx_save, Node_tick n], Some x)"
      by blast
    have "m # ns = (m # pre) @ n # post \<and> (\<forall>k \<in> set (m # pre). node_tick k = Returns)
        \<and> node_tick n = Raises x
        \<and> render_loop (m # ns) = (concat (map scoped (m # pre)) @ [Ctx_save, Node_tick n], Some x)"
      using s p r l Returns by (simp add: scoped_def)
    then show ?thesis by blast
  qed
qed

lemma render_raises:
  assumes "\<exists>n \<in> set (ige_children e). node_tick n \<noteq> Returns"
  shows "\<exists>pre n x post. rev (ige_children (fst (render e))) = pre @ n # post
       \<and> (\<forall>m \<in> set pre. node_tick m = Returns)
       \<and> node_tick n = Raises x
       \<and> snd (render e) =
           ([Ctx_save, Ctx_translate (ige_geometry_x2 e) (ige_geometry_y2 e)]
              @ concat (map scoped pre) @ [Ctx_save, Node_tick n], Some x)"
proof -
  from assms have "\<exists>n \<in> set (rev (sortedChildren e)). node_tick n \<noteq> Returns"
    by (simp add: set_sortedChildren)
  from render_loop_raise_trace [OF this] obtain pre n x post where
    s: "rev (sortedChildren e) = pre @ n # post" and p: "\<forall>k \<in> set pre. node_tick k = Returns"
    and r: "node_tick n = Raises x"
    and l: "render_loop (rev (sortedChildren e))
              = (concat (map scoped pre) @ [Ctx_save, Node_tick n], Some x)"
    by blast
  have "rev (ige_children (fst (render e))) = pre @ n # post"
    using s by (simp add: fst_render)
  moreover have "snd (render e) =
           ([Ctx_save, Ctx_translate (ige_geometry_x2 e) (ige_geometry_y2 e)]
              @ concat (map scoped pre) @ [Ctx_save, Node_tick n], Some x)"
    by (simp add: render_def l)
  ultimately show ?thesis using p r by blast
qed

text \<open>
  C2, as stated, fails. Of two viewports the one visited first raises in its \<^verbatim>\<open>tick\<close>:
  \<^verbatim>\<open>render\<close> has then saved twice and restored never, the other viewport is not ticked,
  and the exception leaves \<^verbatim>\<open>render\<close>.
\<close>

theorem render_raise_counterexample:
  "snd (render ((init 0 True)\<lparr> ige_children :=
      [viewport ''vp1'' 0 Returns None, viewport ''vp2'' 0 (Raises (Thrown ''boom'')) None] \<rparr>))
   = ([Ctx_save, Ctx_translate 0 0, Ctx_save,
       Node_tick (viewport ''vp2'' 0 (Raises (Thrown ''boom'')) None)],
      Some (Thrown ''boom''))"
  by (simp add: render_def sortedChildren_def init_def viewport_def)

text \<open>
  C2, amended. When the \<^verbatim>\<open>tick\<close> of every root node returns, \<^verbatim>\<open>render\<close> with \<open>N\<close> root
  nodes returns after one save and the translation, then one save, tick, restore for each
  node from the last of the array to the first, then one restore: \<open>N + 1\<close> saves and
  \<open>N + 1\<close> restores. When the \<^verbatim>\<open>tick\<close> of some root node raises, \<^verbatim>\<open>render\<close> ends with
  the exception of the first such node it visits: the nodes before it have their three
  calls, that node has its save and its tick, nothing follows, and \<^verbatim>\<open>render\<close> has saved
  twice more than it has restored.
\<close>

theorem render_scoping:
  "((\<forall>n \<in> set (ige_children e). node_tick n = Returns) \<longrightarrow>
      snd (snd (render e)) = None
      \<and> fst (snd (render e)) =
          [Ctx_save, Ctx_translate (ige_geometry_x2 e) (ige_geometry_y2 e)]
            @ concat (map (\<lambda>n. [Ctx_save, Node_tick n, Ctx_restore])
                (rev (ige_children (fst (render e)))))
            @ [Ctx_restore]
      \<and> count_list (fst (snd (render e))) Ctx_save = Suc (length (ige_children e))
      \<and> count_list (fst (snd (render e))) Ctx_restore = Suc (length (ige_children e)))
   \<and> ((\<exists>n \<in> set (ige_children e). node_tick n \<noteq> Returns) \<longrightarrow>
      snd (snd (render e)) \<noteq> None
      \<and> count_list (fst (snd (render e))) Ctx_save
          = count_list (fst (snd (render e))) Ctx_restore + 2
      \<and> (\<exists>pre n x post.
            rev (ige_children (fst (render e))) = pre @ n # post
            \<and> (\<forall>m \<in> set pre. node_tick m = Returns)
            \<and> node_tick n = Raises x
            \<and> snd (render e) =
                ([Ctx_save, Ctx_translate (ige_geometry_x2 e) (ige_geometry_y2 e)]
                   @ concat (map (\<lambda>k. [Ctx_save, Node_tick k, Ctx_restore]) pre)
                   @ [Ctx_save, Node_tick n], Some x)))"
proof (intro conjI impI)
  assume ok: "\<forall>n \<in> set (ige_children e). node_tick n = Returns"
  note r = render_returns [OF ok]
  show "snd (snd (render e)) = None" by (simp add: r)
  have "scoped = (\<lambda>n. [Ctx_save, Node_tick n, Ctx_restore])"
    by (rule ext) (simp add: scoped_def)
  then show "fst (snd (render e)) =
          [Ctx_save, Ctx_translate (ige_geometry_x2 e) (ige_geometry_y2 e)]
            @ concat (map (\<lambda>n. [Ctx_save, Node_tick n, Ctx_restore])
                (rev (ige_children (fst (render e)))))
            @ [Ctx_restore]"
    by (simp add: r)
  show "count_list (fst (snd (render e))) Ctx_save = Suc (length (ige_children e))"
    by (simp add: r count_scoped_save length_sortedChildren)
  show "count_list (fst (snd (render e))) Ctx_restore = Suc (length (ige_children e))"
    by (simp add: r count_scoped_restore length_sortedChildren)
next
  assume bad: "\<exists>n \<in> set (ige_children e). node_tick n \<noteq> Returns"
  then have "\<exists>n \<in> set (rev (sortedChildren e)). node_tick n \<noteq> Returns"
    by (simp add: set_sortedChildren)
  from render_loop_raises [OF this]
  obtain fx x where l: "render_loop (rev (sortedChildren e)) = (fx, Some x)"
    and c: "count_list fx Ctx_save = Suc (count_list fx Ctx_restore)"
    and t: "length (ticked fx) \<le> length (ige_children e)"
    by (cases "render_loop (rev (sortedChildren e))") (auto simp add: length_sortedChildren)
  show "snd (snd (render e)) \<noteq> None" by (simp add: render_def l)
  show "count_list (fst (snd (render e))) Ctx_save
          = count_list (fst (snd (render e))) Ctx_restore + 2"
    by (simp add: render_def l c)
  have "scoped = (\<lambda>k. [Ctx_save, Node_tick k, Ctx_restore])"
    by (rule ext) (simp add: scoped_def)
  with render_raises [OF bad]
  show "\<exists>pre n x post.
            rev (ige_children (fst (render e))) = pre @ n # post
            \<and> (\<forall>m \<in> set pre. node_tick m = Returns)
            \<and> node_tick n = Raises x
            \<and> snd (render e) =
                ([Ctx_save, Ctx_translate (ige_geometry_x2 e) (ige_geometry_y2 e)]
                   @ concat (map (\<lambda>k. [Ctx_save, Node_tick k, Ctx_restore]) pre)
                   @ [Ctx_save, Node_tick n], Some x)"
    by simp
qed

theorem render_scoping_witness:
  "count_list (fst (snd (render ((init 0 True)\<lparr> ige_children := depths312 \<rparr>)))) Ctx_save = 4
   \<and> count_list (fst (snd (render ((init 0 True)\<lparr> ige_children := depths312 \<rparr>)))) Ctx_restore = 4
   \<and> snd (snd (render ((init 0 True)\<lparr> ige_children := depths312 \<rparr>))) = None
   \<and> snd (snd (render ((init 0 True)\<lparr> ige_children :=
        [viewport ''vp2'' 0 (Raises (Thrown ''boom'')) None] \<rparr>))) \<noteq> None
   \<and> count_list (fst (snd (render ((init 0 True)\<lparr> ige_children :=
        [viewport ''vp2'' 0 (Raises (Thrown ''boom'')) None] \<rparr>)))) Ctx_save
     = count_list (fst (snd (render ((init 0 True)\<lparr> ige_children :=
        [viewport ''vp2'' 0 (Raises (Thrown ''boom'')) None] \<rparr>)))) Ctx_restore + 2"
proof -
  have a: "\<forall>n \<in> set (ige_children ((init 0 True)\<lparr> ige_children := depths312 \<rparr>)).
             node_tick n = Returns"
    by (simp add: depths312_def viewport_def)
  have b: "\<exists>n \<in> set (ige_children ((init 0 True)\<lparr> ige_children :=
             [viewport ''vp2'' 0 (Raises (Thrown ''boom'')) None] \<rparr>)). node_tick n \<noteq> Returns"
    by (simp add: viewport_def)
  have n: "length (ige_children ((init 0 True)\<lparr> ige_children := depths312 \<rparr>)) = 3"
    by (simp add: depths312_def)
  show ?thesis
    using a b n
      render_scoping [of "(init 0 True)\<lparr> ige_children := depths312 \<rparr>"]
      render_scoping [of "(init 0 True)\<lparr> ige_children :=
        [viewport ''vp2'' 0 (Raises (Thrown ''boom'')) None] \<rparr>"]
    by auto
qed

lemma sorted_descending_rev:
  "sorted (map (\<lambda>n. - node_depth n) xs) \<Longrightarrow> sorted (map node_depth (rev xs))"
  by (simp add: sorted_wrt_map sorted_wrt_rev)

text \<open>
  C3, as stated, fails. With the depth sort off, viewports of depths 3, 1, 2 in the array
  are ticked in the order 2, 1, 3: the loop runs from the last element to the first.
\<close>

theorem render_order_counterexample:
  "map node_depth (ige_children ((init 0 True)\<lparr> ige_children := depths312 \<rparr>)) = [3, 1, 2]
   \<and> ige_viewportDepth ((init 0 True)\<lparr> ige_children := depths312 \<rparr>) = False
   \<and> map node_depth (ticked (fst (snd (render ((init 0 True)\<lparr> ige_children := depths312 \<rparr>)))))
       = [2, 1, 3]"
  by (simp add: render_def sortedChildren_def init_def depths312_def viewport_def)

text \<open>
  C3, amended. Let the \<^verbatim>\<open>tick\<close> of every root node return. With the depth sort on,
  \<^verbatim>\<open>render\<close> ticks the root nodes, each once, in ascending depth (depths 3, 1, 2 are
  ticked as 1, 2, 3). With the depth sort off, it ticks them in the reverse of their
  order in the array (depths 3, 1, 2 are ticked as 2, 1, 3).
\<close>

theorem render_order:
  assumes "\<forall>n \<in> set (ige_children e). node_tick n = Returns"
  shows "(if ige_viewportDepth e
          then ticked (fst (snd (render e))) = rev (depthSortChildren (ige_children e))
               \<and> sorted (map node_depth (ticked (fst (snd (render e)))))
               \<and> mset (ticked (fst (snd (render e)))) = mset (ige_children e)
          else ticked (fst (snd (render e))) = rev (ige_children e))"
proof (cases "ige_viewportDepth e")
  case True
  have "sorted (map (\<lambda>n. - node_depth n) (depthSortChildren (ige_children e)))"
    unfolding depthSortChildren_def by (rule sorted_sort_key)
  then have "sorted (map node_depth (rev (depthSortChildren (ige_children e))))"
    by (rule sorted_descending_rev)
  moreover have "mset (rev (depthSortChildren (ige_children e))) = mset (ige_children e)"
    by (simp add: depthSortChildren_def)
  ultimately show ?thesis
    using True by (simp add: ticked_render [OF assms] sortedChildren_def)
next
  case False
  then show ?thesis by (simp add: ticked_render [OF assms] sortedChildren_def)
qed

theorem render_order_witness:
  "map node_depth (ticked (fst (snd (render
      ((init 0 True)\<lparr> ige_viewportDepth := True, ige_children := depths312 \<rparr>))))) = [1, 2, 3]
   \<and> map node_depth (ticked (fst (snd (render
      ((init 0 True)\<lparr> ige_viewportDepth := False, ige_children := depths312 \<rparr>))))) = [2, 1, 3]"
proof -
  have a: "\<forall>n \<in> set (ige_children
             ((init 0 True)\<lparr> ige_viewportDepth := True, ige_children := depths312 \<rparr>)).
             node_tick n = Returns"
    by (simp add: depths312_def viewport_def)
  have b: "\<forall>n \<in> set (ige_children
             ((init 0 True)\<lparr> ige_viewportDepth := False, ige_children := depths312 \<rparr>)).
             node_tick n = Returns"
    by (simp add: depths312_def viewport_def)
  show ?thesis
    using render_order [OF a] render_order [OF b]
    by (simp add: depthSortChildren_def depths312_def viewport_def)
qed

section \<open>The frame loop: properties\<close>

lemma tickDelta_tick:
  "ige_state e \<noteq> 0 \<Longrightarrow>
     ige_tickDelta (fst (tick sub t e)) = ige_tickDelta (tickTiming sub t e)"
  using fst_render [of "tickTiming sub t e"]
  by (auto simp add: tick_def split: prod.splits option.splits)

lemma tick_completed:
  assumes "ige_state e \<noteq> 0" and "snd (snd (tick sub t e)) = None"
  shows "ige_lastTick (fst (tick sub t e))
           = Some (js_minus sub (to_double t) (ige_clientNetDiff e))
         \<and> ige_state (fst (tick sub t e)) = ige_state e
         \<and> ige_clientNetDiff (fst (tick sub t e)) = ige_clientNetDiff e"
  using assms fst_render [of "tickTiming sub t e"]
  by (auto simp add: tick_def tickTiming_def split: prod.splits option.splits if_splits)

text \<open>
  After \<^verbatim>\<open>stop\<close> and a second \<^verbatim>\<open>start\<close> the time stamp of the last tick before the stop
  is still stored: the first tick of the second run has the delta to it.
\<close>

lemma tick_after_restart:
  "ige_tickDelta (fst (tick exact_minus (Some (Num 5000))
      (fst (start no_external 4000 (JFunction 1)
        (fst (stop (fst (tick exact_minus (Some (Num 100))
          (fst (start no_external 0 (JFunction 1) (init 0 True)))))))))))
   = Num 4900"
  by (simp add: tick_def tickTiming_def render_def sortedChildren_def start_def stop_def
      dependencyCheck_def init_def texturesLoaded_def canvasReady_def fire_def exact_minus_def)

text \<open>
  C6, as stated, fails. On a running engine with no clock offset, a tick at time stamp 0
  followed by a tick at time stamp 16 leaves the delta 0, not 16: the stored 0 is read as
  no stored time stamp.
\<close>

theorem tick_delta_counterexample:
  "ige_state (fst (start no_external 0 (JFunction 1) (init 0 True))) = 1
   \<and> ige_tickDelta (fst (tick exact_minus (Some (Num 16))
        (fst (tick exact_minus (Some (Num 0))
          (fst (start no_external 0 (JFunction 1) (init 0 True))))))) = Num 0"
  by (simp add: tick_def tickTiming_def render_def sortedChildren_def start_def
      dependencyCheck_def init_def texturesLoaded_def canvasReady_def fire_def exact_minus_def)

text \<open>
  C6, amended. On a running engine, whatever the rounding of the subtraction:
  a tick that finds no stored time stamp (undefined, 0 or \<^verbatim>\<open>NaN\<close>) sets the delta to 0;
  a tick that finds the stored time stamp \<open>p \<noteq> 0\<close> sets the delta to its own corrected
  time stamp less \<open>p\<close>, which is \<^verbatim>\<open>NaN\<close> when the tick has no time stamp;
  when a tick at \<open>t1\<close> with clock offset \<open>c\<close> completes and its corrected time stamp is not
  0, the next tick at \<open>t2\<close> sets the delta to \<open>(t2 - c) - (t1 - c)\<close>, each subtraction
  rounded, which is \<open>t2 - t1\<close> when none of the three rounds;
  and when a tick with no time stamp completes, it stores \<^verbatim>\<open>NaN\<close> and the next tick sets
  the delta to 0.
\<close>

theorem tick_delta:
  assumes "ige_state e \<noteq> 0"
  shows "(falsy_number (ige_lastTick e) \<longrightarrow> ige_tickDelta (fst (tick sub ts e)) = Num 0)
       \<and> (\<forall>p. ige_lastTick e = Some (Num p) \<and> p \<noteq> 0 \<longrightarrow>
            ige_tickDelta (fst (tick sub ts e))
              = js_minus sub (js_minus sub (to_double ts) (ige_clientNetDiff e)) (Num p)
            \<and> (\<forall>t c. ts = Some (Num t) \<and> ige_clientNetDiff e = Num c \<longrightarrow>
                 ige_tickDelta (fst (tick sub ts e)) = Num (sub (sub t c) p))
            \<and> ige_tickDelta (fst (tick sub None e)) = NaN)
       \<and> (\<forall>t1 t2 c. ts = Some (Num t1) \<and> ige_clientNetDiff e = Num c
              \<and> snd (snd (tick sub ts e)) = None \<and> sub t1 c \<noteq> 0 \<longrightarrow>
            ige_tickDelta (fst (tick sub (Some (Num t2)) (fst (tick sub ts e))))
              = Num (sub (sub t2 c) (sub t1 c))
            \<and> (sub t1 c = t1 - c \<and> sub t2 c = t2 - c
                 \<and> sub (t2 - c) (t1 - c) = t2 - t1 \<longrightarrow>
               ige_tickDelta (fst (tick sub (Some (Num t2)) (fst (tick sub ts e))))
                 = Num (t2 - t1)))
       \<and> (\<forall>ts2. snd (snd (tick sub None e)) = None \<longrightarrow>
            ige_lastTick (fst (tick sub None e)) = Some NaN
            \<and> ige_tickDelta (fst (tick sub ts2 (fst (tick sub None e)))) = Num 0)"
proof (intro conjI impI allI)
  assume "falsy_number (ige_lastTick e)"
  then show "ige_tickDelta (fst (tick sub ts e)) = Num 0"
    by (simp add: tickDelta_tick [OF assms] tickTiming_def)
next
  fix p assume p: "ige_lastTick e = Some (Num p) \<and> p \<noteq> 0"
  then show "ige_tickDelta (fst (tick sub ts e))
      = js_minus sub (js_minus sub (to_double ts) (ige_clientNetDiff e)) (Num p)"
    by (simp add: tickDelta_tick [OF assms] tickTiming_def)
  from p show "ige_tickDelta (fst (tick sub None e)) = NaN"
    by (simp add: tickDelta_tick [OF assms] tickTiming_def)
  fix t c assume "ts = Some (Num t) \<and> ige_clientNetDiff e = Num c"
  with p show "ige_tickDelta (fst (tick sub ts e)) = Num (sub (sub t c) p)"
    by (simp add: tickDelta_tick [OF assms] tickTiming_def)
next
  fix t1 t2 c
  assume h: "ts = Some (Num t1) \<and> ige_clientNetDiff e = Num c
              \<and> snd (snd (tick sub ts e)) = None \<and> sub t1 c \<noteq> 0"
  then have ts: "ts = Some (Num t1)" and cn: "ige_clientNetDiff e = Num c"
    and ok: "snd (snd (tick sub ts e)) = None" and nz: "sub t1 c \<noteq> 0"
    by blast+
  from tick_completed [OF assms ok]
  have l: "ige_lastTick (fst (tick sub ts e)) = Some (Num (sub t1 c))"
    and s: "ige_state (fst (tick sub ts e)) = ige_state e"
    and d: "ige_clientNetDiff (fst (tick sub ts e)) = Num c"
    by (simp_all add: ts cn)
  from s assms have r: "ige_state (fst (tick sub ts e)) \<noteq> 0" by simp
  show g: "ige_tickDelta (fst (tick sub (Some (Num t2)) (fst (tick sub ts e))))
      = Num (sub (sub t2 c) (sub t1 c))"
    using nz by (simp add: tickDelta_tick [OF r] tickTiming_def l d)
  assume "sub t1 c = t1 - c \<and> sub t2 c = t2 - c \<and> sub (t2 - c) (t1 - c) = t2 - t1"
  with g show "ige_tickDelta (fst (tick sub (Some (Num t2)) (fst (tick sub ts e))))
      = Num (t2 - t1)"
    by simp
next
  fix ts2
  assume h: "snd (snd (tick sub None e)) = None"
  from tick_completed [OF assms h]
  have l: "ige_lastTick (fst (tick sub None e)) = Some NaN"
    and s: "ige_state (fst (tick sub None e)) = ige_state e"
    by simp_all
  from s assms have r: "ige_state (fst (tick sub None e)) \<noteq> 0" by simp
  show "ige_lastTick (fst (tick sub None e)) = Some NaN" by (rule l)
  show "ige_tickDelta (fst (tick sub ts2 (fst (tick sub None e)))) = Num 0"
    by (simp add: tickDelta_tick [OF r] tickTiming_def l)
qed

theorem tick_delta_witness:
  "ige_tickDelta (fst (tick exact_minus (Some (Num 100)) ((init 0 True)\<lparr> ige_state := 1 \<rparr>)))
     = Num 0
   \<and> ige_tickDelta (fst (tick exact_minus (Some (Num 116))
        ((init 0 True)\<lparr> ige_state := 1, ige_lastTick := Some (Num 100) \<rparr>))) = Num 16
   \<and> ige_tickDelta (fst (tick exact_minus (Some (Num 116))
        (fst (tick exact_minus (Some (Num 100)) ((init 0 True)\<lparr> ige_state := 1 \<rparr>)))))
     = Num 16
   \<and> ige_tickDelta (fst (tick exact_minus (Some (Num 116))
        (fst (tick exact_minus None ((init 0 True)\<lparr> ige_state := 1 \<rparr>)))))
     = Num 0"
proof -
  have a: "ige_state ((init 0 True)\<lparr> ige_state := 1 \<rparr>) \<noteq> 0" by simp
  have b: "ige_state ((init 0 True)\<lparr> ige_state := 1, ige_lastTick := Some (Num 100) \<rparr>) \<noteq> 0"
    by simp
  have c: "snd (snd (tick exact_minus (Some (Num 100)) ((init 0 True)\<lparr> ige_state := 1 \<rparr>)))
             = None"
    by (simp add: tick_def render_def sortedChildren_def tickTiming_def init_def)
  have d: "snd (snd (tick exact_minus None ((init 0 True)\<lparr> ige_state := 1 \<rparr>))) = None"
    by (simp add: tick_def render_def sortedChildren_def tickTiming_def init_def)
  have n: "ige_clientNetDiff ((init 0 True)\<lparr> ige_state := 1 \<rparr>) = Num 0"
    and f: "falsy_number (ige_lastTick ((init 0 True)\<lparr> ige_state := 1 \<rparr>))"
    and g: "ige_clientNetDiff ((init 0 True)\<lparr> ige_state := 1, ige_lastTick := Some (Num 100) \<rparr>)
              = Num 0"
    by (simp_all add: init_def)
  show ?thesis
    using c d n f g
      tick_delta [OF a, of exact_minus "Some (Num 100)"]
      tick_delta [OF b, of exact_minus "Some (Num 116)"]
    by (auto simp add: exact_minus_def)
qed

section \<open>The console walk of the scene graph: properties\<close>

text \<open>An absent \<^verbatim>\<open>_children\<close> prints what an empty one prints.\<close>

lemma sceneGraph_node_absent_children:
  "sceneGraph_node (Node i c dp tk None sc sr) d
     = sceneGraph_node (Node i c dp tk (Some []) sc sr) d"
  by simp

text \<open>When every viewport has a scene the walk ends without an exception.\<close>

lemma sceneGraph_viewports_scenes:
  "\<forall>v \<in> set vs. node_scene v \<noteq> None \<Longrightarrow> snd (sceneGraph_viewports vs d) = None"
  by (induction vs) (auto split: prod.splits)

text \<open>
  C9. The walk is to skip a viewport with no nested scene. For an engine whose only
  viewport has no \<^verbatim>\<open>_scene\<close>, \<^verbatim>\<open>sceneGraph\<close> prints the line of the engine and then
  raises a \<^verbatim>\<open>TypeError\<close> at \<^verbatim>\<open>arr[arrCount]._scene._shouldRender\<close>.
\<close>

theorem sceneGraph_absent_scene:
  "sceneGraph ((init 0 True)\<lparr> ige_children := [viewport ''vp1'' 0 Returns None] \<rparr>) 0
     = ([''ige (IgeEngine)''],
        Some (TypeError ''Cannot read property _shouldRender of undefined''))"
  by (simp add: sceneGraph_def init_def viewport_def depthSpace_def label_def)

end
